theory Spec2Isabelle
  imports Main
begin

section \<open>PolicyGuard: the action validation and policy decision engine\<close>

text \<open>
  A shallow embedding of \<^verbatim>\<open>src/tools/validate_action.py\<close>,
  \<^verbatim>\<open>src/tools/create_policy.py\<close>, \<^verbatim>\<open>src/tools/report_incident.py\<close> and the
  storage helpers of \<^verbatim>\<open>src/core/utils.py\<close>. Python exceptions are values of a sum
  type, the JSON files of the data directory are the fields of a store record, and the
  identifiers and the timestamp a call draws from \<^verbatim>\<open>uuid\<close> and the clock are
  inputs of the call.
\<close>

subsection \<open>Python's \<^verbatim>\<open>re.match\<close> on the regular expressions the matcher builds\<close>

text \<open>
  \<^verbatim>\<open>_match_pattern\<close> hands a string to \<^verbatim>\<open>re.match(..., re.IGNORECASE)\<close>. The library is
  modelled on a fragment of its syntax: ordinary characters, \<^verbatim>\<open>.\<close> (any character but
  a newline, as \<^verbatim>\<open>re.DOTALL\<close> is not set), a star after an atom, the anchors \<^verbatim>\<open>^\<close>
  and \<^verbatim>\<open>$\<close> (without \<^verbatim>\<open>re.MULTILINE\<close>), and a closing parenthesis with no opening
  one, which the compiler rejects with \<^verbatim>\<open>re.error\<close>. The other special characters
  (backslash, brackets, braces, an opening parenthesis, \<^verbatim>\<open>+\<close>, \<^verbatim>\<open>?\<close>, \<^verbatim>\<open>|\<close>) and
  characters outside ASCII give \<open>NotModelled\<close>: the model makes no statement about
  them. Strings are ASCII texts, one \<open>char\<close> per code point.
\<close>

datatype error =
    ReError        \<comment> \<open>\<^verbatim>\<open>re.error\<close>, raised when the expression does not compile\<close>
  | NotModelled    \<comment> \<open>outside the modelled fragment of \<^verbatim>\<open>re\<close>\<close>

datatype atom = Lit char | AnyChar

datatype item = One atom | Star atom | Bol | Eol

definition newline :: char where
  "newline = CHR 0x0A"

definition ascii_lower :: "char \<Rightarrow> char" where
  "ascii_lower c =
     (case map_of (zip ''ABCDEFGHIJKLMNOPQRSTUVWXYZ'' ''abcdefghijklmnopqrstuvwxyz'') c of
        None \<Rightarrow> c
      | Some l \<Rightarrow> l)"

definition is_ascii :: "char \<Rightarrow> bool" where
  "is_ascii c = (\<not> digit7 c)"

definition unmodelled_chars :: "char list" where
  "unmodelled_chars = [CHR 0x5C, CHR ''['', CHR ''{'', CHR ''('', CHR ''+'', CHR ''?'', CHR ''|'']"

definition starts_with_star :: "string \<Rightarrow> bool" where
  "starts_with_star cs = (case cs of [] \<Rightarrow> False | c # _ \<Rightarrow> c = CHR ''*'')"

definition cons_item :: "item \<Rightarrow> error + item list \<Rightarrow> error + item list" where
  "cons_item i r = (case r of Inl e \<Rightarrow> Inl e | Inr is \<Rightarrow> Inr (i # is))"

text \<open>
  The compiler reads the expression from left to right and raises at the first
  construct it rejects: a star with nothing to repeat (at the start or after an anchor),
  a star after a star (multiple repeat), an unbalanced closing parenthesis.
\<close>

fun re_parse :: "string \<Rightarrow> error + item list" where
  "re_parse [] = Inr []"
| "re_parse (c # cs) =
     (if \<not> is_ascii c \<or> c \<in> set unmodelled_chars then Inl NotModelled
      else if c = CHR '')'' then Inl ReError
      else if c = CHR ''*'' then Inl ReError
      else if c = CHR ''^'' \<or> c = CHR ''$'' then
        (if starts_with_star cs then Inl ReError
         else cons_item (if c = CHR ''^'' then Bol else Eol) (re_parse cs))
      else if starts_with_star cs then
        (if starts_with_star (tl cs) then Inl ReError
         else cons_item (Star (if c = CHR ''.'' then AnyChar else Lit c)) (re_parse (tl cs)))
      else cons_item (One (if c = CHR ''.'' then AnyChar else Lit c)) (re_parse cs))"

definition atom_ok :: "atom \<Rightarrow> char \<Rightarrow> bool" where
  "atom_ok a c = (case a of Lit p \<Rightarrow> ascii_lower p = ascii_lower c | AnyChar \<Rightarrow> c \<noteq> newline)"

text \<open>
  \<open>re_items is at_start s\<close>: the items match a prefix of the rest \<open>s\<close> of the subject;
  \<open>at_start\<close> says that nothing of the subject has been consumed yet. \<^verbatim>\<open>$\<close> holds at
  the end of the subject and just before a newline that ends it.
\<close>

fun re_items :: "item list \<Rightarrow> bool \<Rightarrow> string \<Rightarrow> bool" where
  "re_items [] at_start s = True"
| "re_items (Bol # r) at_start s = (at_start \<and> re_items r at_start s)"
| "re_items (Eol # r) at_start s = ((s = [] \<or> s = [newline]) \<and> re_items r at_start s)"
| "re_items (One a # r) at_start [] = False"
| "re_items (One a # r) at_start (c # s) = (atom_ok a c \<and> re_items r False s)"
| "re_items (Star a # r) at_start [] = re_items r at_start []"
| "re_items (Star a # r) at_start (c # s) =
     (re_items r at_start (c # s) \<or> (atom_ok a c \<and> re_items (Star a # r) False s))"

definition re_match :: "string \<Rightarrow> string \<Rightarrow> error + bool" where
  "re_match regex subject =
     (case re_parse regex of
        Inl e \<Rightarrow> Inl e
      | Inr is \<Rightarrow> if list_all is_ascii subject then Inr (re_items is True subject)
                 else Inl NotModelled)"

subsection \<open>The pattern matcher\<close>

definition replace_star :: "string \<Rightarrow> string" where
  "replace_star pattern = concat (map (\<lambda>c. if c = CHR ''*'' then ''.*'' else [c]) pattern)"

definition match_pattern :: "string \<Rightarrow> string \<Rightarrow> error + bool" where
  "match_pattern pattern v =
     (if pattern = ''*'' then Inr True
      else re_match (''^'' @ replace_star pattern @ ''$'') v)"

subsection \<open>The data model\<close>

text \<open>
  The stores hold JSON documents. A key that a document may lack is an \<open>option\<close>
  field (\<open>None\<close>: the key is absent), and every field has the type the tools write
  into it. Free-form values (metadata, parameters, evidence) stay JSON.
\<close>

datatype json =
    JNull
  | JBool bool
  | JNum int
  | JStr string
  | JArr "json list"
  | JObj "(string \<times> json) list"

record agent =
  ag_agent_id :: "string option"
  ag_name :: "string option"
  ag_description :: "string option"
  ag_trust_level :: "string option"
  ag_allowed_tools :: "string list option"
  ag_denied_tools :: "string list option"
  ag_metadata :: "json option"
  ag_status :: "string option"
  ag_registered_at :: "string option"
  ag_updated_at :: "string option"
  ag_auto_registered :: "bool option"
  ag_suspended_at :: "string option"
  ag_suspension_reason :: "string option"

record condition =
  co_tool_pattern :: "string option"
  co_action_type :: "string option"
  co_trust_level_at_least :: "string option"
  co_trust_level_below :: "string option"
  co_other :: "(string \<times> json) list"   \<comment> \<open>the keys the evaluator does not read\<close>

record rule =
  ru_condition :: "condition option"
  ru_action :: "string option"
  ru_message :: "string option"

record policy =
  po_id :: "string option"
  po_name :: "string option"
  po_description :: "string option"
  po_rules :: "rule list option"
  po_priority :: "int option"
  po_enabled :: "bool option"
  po_created_at :: "string option"
  po_updated_at :: "string option"

text \<open>The dictionary \<^verbatim>\<open>_evaluate_policies\<close> returns; \<^verbatim>\<open>require_approval\<close> is a key of
  one of its four shapes only.\<close>

record decision =
  de_allowed :: bool
  de_require_approval :: "bool option"
  de_reason :: string
  de_policy_matched :: string

record audit_entry =
  au_entry_id :: string
  au_action_id :: "string option"
  au_timestamp :: string
  au_agent_id :: string
  au_type :: string
  au_target :: string
  au_parameters :: json
  au_context :: "string option"
  au_allowed :: bool
  au_require_approval :: "bool option"
  au_reason :: string

text \<open>An incident is written by \<^verbatim>\<open>validate_action\<close> (with \<^verbatim>\<open>action_id\<close> and
  \<^verbatim>\<open>details\<close>) or by \<^verbatim>\<open>report_incident\<close> (with the other optional keys; there
  \<open>inc_agent_id = None\<close> is the JSON null the tool stores for an empty agent id).\<close>

record incident =
  inc_incident_id :: string
  inc_timestamp :: string
  inc_type :: string
  inc_severity :: string
  inc_agent_id :: "string option"
  inc_action_id :: "string option"
  inc_details :: "string option"
  inc_description :: "string option"
  inc_evidence :: "json option"
  inc_recommended_action :: "string option"
  inc_status :: "string option"
  inc_resolution :: "json option"

text \<open>The four files of the data directory; a missing file reads as its default.\<close>

record store =
  st_agents :: "string \<rightharpoonup> agent"
  st_policies :: "policy list"
  st_audit_log :: "audit_entry list"
  st_incidents :: "incident list"

text \<open>What a call draws from \<^verbatim>\<open>generate_id\<close> and \<^verbatim>\<open>get_timestamp\<close>.\<close>

record env =
  env_action_id :: string
  env_audit_id :: string
  env_incident_id :: string
  env_timestamp :: string

text \<open>A tool parameter that carries JSON text, as \<^verbatim>\<open>json.loads\<close> sees it: the empty
  string, a text that does not parse (the text and the decoder's message), or the parsed
  value.\<close>

datatype 'a json_arg = Blank | Invalid string string | Valid 'a

subsection \<open>Storage helpers (\<^verbatim>\<open>core/utils.py\<close>)\<close>

definition max_items :: nat where
  "max_items = 1000"

definition append_to_json_list :: "'a list \<Rightarrow> 'a \<Rightarrow> 'a list" where
  "append_to_json_list xs x =
     (let d = xs @ [x]
      in if length d > max_items then drop (length d - max_items) d else d)"

subsection \<open>Strings the tools build\<close>

definition q :: "string \<Rightarrow> string" where
  "q s = [CHR 0x27] @ s @ [CHR 0x27]"

definition digit_char :: "nat \<Rightarrow> char" where
  "digit_char d = ''0123456789'' ! d"

fun str_nat :: "nat \<Rightarrow> string" where
  "str_nat n = (if n < 10 then [digit_char n] else str_nat (n div 10) @ [digit_char (n mod 10)])"

declare str_nat.simps [simp del]

subsection \<open>The decision evaluator (\<^verbatim>\<open>_evaluate_policies\<close>)\<close>

definition trust_levels :: "string \<Rightarrow> nat option" where
  "trust_levels = map_of [(''low'', 1), (''medium'', 2), (''high'', 3), (''admin'', 4)]"

definition trust_score :: "string \<Rightarrow> nat" where
  "trust_score l = (case trust_levels l of None \<Rightarrow> 1 | Some n \<Rightarrow> n)"

definition empty_agent :: agent where
  "empty_agent = \<lparr>ag_agent_id = None, ag_name = None, ag_description = None,
     ag_trust_level = None, ag_allowed_tools = None, ag_denied_tools = None,
     ag_metadata = None, ag_status = None, ag_registered_at = None, ag_updated_at = None,
     ag_auto_registered = None, ag_suspended_at = None, ag_suspension_reason = None\<rparr>"

definition empty_condition :: condition where
  "empty_condition = \<lparr>co_tool_pattern = None, co_action_type = None,
     co_trust_level_at_least = None, co_trust_level_below = None, co_other = []\<rparr>"

definition get_or :: "'a option \<Rightarrow> 'a \<Rightarrow> 'a" where
  "get_or x d = (case x of None \<Rightarrow> d | Some v \<Rightarrow> v)"

text \<open>The two loops over the agent's tool lists: the first pattern that matches ends
  the loop, and a pattern that raises ends the call.\<close>

fun any_match :: "string list \<Rightarrow> string \<Rightarrow> error + bool" where
  "any_match [] target = Inr False"
| "any_match (pattern # rest) target =
     (case match_pattern pattern target of
        Inl e \<Rightarrow> Inl e
      | Inr True \<Rightarrow> Inr True
      | Inr False \<Rightarrow> any_match rest target)"

text \<open>\<^verbatim>\<open>if pat and not _match_pattern(pat, v): continue\<close>: an absent or empty pattern
  is false to Python and the matcher is not called; \<open>Inr False\<close> skips the rule.\<close>

definition pattern_ok :: "string option \<Rightarrow> string \<Rightarrow> error + bool" where
  "pattern_ok pat v =
     (case pat of
        None \<Rightarrow> Inr True
      | Some p \<Rightarrow> if p = [] then Inr True else match_pattern p v)"

definition policy_id_or_unknown :: "policy \<Rightarrow> string" where
  "policy_id_or_unknown policy = get_or (po_id policy) ''unknown''"

text \<open>The block under \<^verbatim>\<open># Check trust level requirement\<close>; \<open>None\<close>: it does not
  return.\<close>

definition at_least_clause :: "string \<Rightarrow> string \<Rightarrow> policy \<Rightarrow> rule \<Rightarrow> condition \<Rightarrow> decision option" where
  "at_least_clause target trust_level policy rule cond =
     (case co_trust_level_at_least cond of
        None \<Rightarrow> None
      | Some required_trust \<Rightarrow>
          if required_trust \<noteq> [] \<and> trust_score trust_level < trust_score required_trust
             \<and> get_or (ru_action rule) ''deny'' = ''deny''
          then Some \<lparr>de_allowed = False, de_require_approval = None,
                 de_reason = ''Tool '' @ q target @ '' requires trust level '' @ q required_trust
                   @ '', agent has '' @ q trust_level,
                 de_policy_matched = policy_id_or_unknown policy\<rparr>
          else None)"

text \<open>The block under \<^verbatim>\<open># Check trust level below (for denials)\<close>.\<close>

definition below_clause :: "string \<Rightarrow> policy \<Rightarrow> rule \<Rightarrow> condition \<Rightarrow> decision option" where
  "below_clause trust_level policy rule cond =
     (case co_trust_level_below cond of
        None \<Rightarrow> None
      | Some below_trust \<Rightarrow>
          if below_trust \<noteq> [] \<and> trust_score trust_level < trust_score below_trust then
            (if get_or (ru_action rule) ''deny'' = ''deny'' then
               Some \<lparr>de_allowed = False, de_require_approval = None,
                 de_reason = get_or (ru_message rule)
                   (''Access denied by policy '' @ q (get_or (po_id policy) ''None'')),
                 de_policy_matched = policy_id_or_unknown policy\<rparr>
             else if get_or (ru_action rule) ''deny'' = ''require_approval'' then
               Some \<lparr>de_allowed = False, de_require_approval = Some True,
                 de_reason = get_or (ru_message rule) ''This action requires human approval'',
                 de_policy_matched = policy_id_or_unknown policy\<rparr>
             else None)
          else None)"

text \<open>The body of the loop over a policy's rules: \<open>Inr None\<close> goes on to the next
  rule, \<open>Inr (Some d)\<close> returns \<open>d\<close>, \<open>Inl e\<close> is the exception of a matcher call.\<close>

definition eval_rule :: "string \<Rightarrow> string \<Rightarrow> string \<Rightarrow> policy \<Rightarrow> rule \<Rightarrow> error + decision option" where
  "eval_rule action_type target trust_level policy rule =
     (let cond = get_or (ru_condition rule) empty_condition
      in case pattern_ok (co_tool_pattern cond) target of
           Inl e \<Rightarrow> Inl e
         | Inr False \<Rightarrow> Inr None
         | Inr True \<Rightarrow>
             (case pattern_ok (co_action_type cond) action_type of
                Inl e \<Rightarrow> Inl e
              | Inr False \<Rightarrow> Inr None
              | Inr True \<Rightarrow>
                  (case at_least_clause target trust_level policy rule cond of
                     Some d \<Rightarrow> Inr (Some d)
                   | None \<Rightarrow> Inr (below_clause trust_level policy rule cond))))"

fun eval_rules :: "string \<Rightarrow> string \<Rightarrow> string \<Rightarrow> policy \<Rightarrow> rule list \<Rightarrow> error + decision option" where
  "eval_rules action_type target trust_level policy [] = Inr None"
| "eval_rules action_type target trust_level policy (rule # rest) =
     (case eval_rule action_type target trust_level policy rule of
        Inl e \<Rightarrow> Inl e
      | Inr (Some d) \<Rightarrow> Inr (Some d)
      | Inr None \<Rightarrow> eval_rules action_type target trust_level policy rest)"

fun eval_policy_list :: "string \<Rightarrow> string \<Rightarrow> string \<Rightarrow> policy list \<Rightarrow> error + decision option" where
  "eval_policy_list action_type target trust_level [] = Inr None"
| "eval_policy_list action_type target trust_level (policy # rest) =
     (if \<not> get_or (po_enabled policy) True
      then eval_policy_list action_type target trust_level rest
      else case eval_rules action_type target trust_level policy (get_or (po_rules policy) []) of
             Inl e \<Rightarrow> Inl e
           | Inr (Some d) \<Rightarrow> Inr (Some d)
           | Inr None \<Rightarrow> eval_policy_list action_type target trust_level rest)"

definition denied_decision :: "string \<Rightarrow> string \<Rightarrow> decision" where
  "denied_decision target agent_id =
     \<lparr>de_allowed = False, de_require_approval = None,
      de_reason = ''Tool '' @ q target @ '' is explicitly denied for agent '' @ q agent_id,
      de_policy_matched = ''agent_denied_tools''\<rparr>"

definition not_allowed_decision :: "string \<Rightarrow> string \<Rightarrow> decision" where
  "not_allowed_decision target agent_id =
     \<lparr>de_allowed = False, de_require_approval = None,
      de_reason = ''Tool '' @ q target @ '' is not in allowed list for agent '' @ q agent_id,
      de_policy_matched = ''agent_allowed_tools''\<rparr>"

definition default_allow :: decision where
  "default_allow =
     \<lparr>de_allowed = True, de_require_approval = None,
      de_reason = ''Action permitted by default policy'',
      de_policy_matched = ''default_allow''\<rparr>"

definition evaluate_policies ::
  "string \<Rightarrow> string \<Rightarrow> string \<Rightarrow> json \<Rightarrow> (string \<rightharpoonup> agent) \<Rightarrow> policy list \<Rightarrow> error + decision" where
  "evaluate_policies action_type target agent_id parameters agents policies =
     (let agent = get_or (agents agent_id) empty_agent;
          trust_level = get_or (ag_trust_level agent) ''low'';
          allowed_tools = get_or (ag_allowed_tools agent) [];
          denied_tools = get_or (ag_denied_tools agent) []
      in case (if denied_tools \<noteq> [] then any_match denied_tools target else Inr False) of
           Inl e \<Rightarrow> Inl e
         | Inr True \<Rightarrow> Inr (denied_decision target agent_id)
         | Inr False \<Rightarrow>
             (case (if allowed_tools \<noteq> [] \<and> allowed_tools \<noteq> [''*'']
                    then any_match allowed_tools target else Inr True) of
                Inl e \<Rightarrow> Inl e
              | Inr False \<Rightarrow> Inr (not_allowed_decision target agent_id)
              | Inr True \<Rightarrow>
                  (case eval_policy_list action_type target trust_level policies of
                     Inl e \<Rightarrow> Inl e
                   | Inr (Some d) \<Rightarrow> Inr d
                   | Inr None \<Rightarrow> Inr default_allow)))"

subsection \<open>\<^verbatim>\<open>validate_action\<close>\<close>

record va_result =
  va_action_id :: string
  va_allowed :: bool
  va_require_approval :: "bool option"
  va_reason :: string
  va_warnings :: "string list"

definition auto_agent :: "string \<Rightarrow> string \<Rightarrow> agent" where
  "auto_agent agent_id timestamp =
     empty_agent\<lparr>ag_agent_id := Some agent_id,
       ag_name := Some (''Auto-registered: '' @ agent_id),
       ag_trust_level := Some ''low'',
       ag_registered_at := Some timestamp,
       ag_auto_registered := Some True\<rparr>"

text \<open>\<^verbatim>\<open>if agent_id not in agents: agents[agent_id] = {...}\<close>, saved at once.\<close>

definition auto_register :: "string \<Rightarrow> string \<Rightarrow> (string \<rightharpoonup> agent) \<Rightarrow> (string \<rightharpoonup> agent)" where
  "auto_register agent_id timestamp agents =
     (if agents agent_id = None
      then agents(agent_id \<mapsto> auto_agent agent_id timestamp)
      else agents)"

text \<open>\<^verbatim>\<open>json.loads(parameters) if parameters else {}\<close>, and \<^verbatim>\<open>{}\<close> when it does
  not parse.\<close>

definition parse_params :: "json json_arg \<Rightarrow> json" where
  "parse_params parameters = (case parameters of Valid j \<Rightarrow> j | _ \<Rightarrow> JObj [])"

definition suspended_result :: "string \<Rightarrow> string \<Rightarrow> va_result" where
  "suspended_result action_id agent_id =
     \<lparr>va_action_id = action_id, va_allowed = False, va_require_approval = None,
      va_reason = ''Agent '' @ q agent_id @ '' is suspended'', va_warnings = []\<rparr>"

definition evaluated_result :: "string \<Rightarrow> decision \<Rightarrow> va_result" where
  "evaluated_result action_id eval_result =
     \<lparr>va_action_id = action_id, va_allowed = de_allowed eval_result,
      va_require_approval = Some (get_or (de_require_approval eval_result) False),
      va_reason = de_reason eval_result, va_warnings = []\<rparr>"

definition validation_audit_entry ::
  "env \<Rightarrow> string \<Rightarrow> string \<Rightarrow> string \<Rightarrow> json \<Rightarrow> string \<Rightarrow> va_result \<Rightarrow> audit_entry" where
  "validation_audit_entry e action_type target agent_id params ctx result =
     \<lparr>au_entry_id = env_audit_id e, au_action_id = Some (env_action_id e),
      au_timestamp = env_timestamp e, au_agent_id = agent_id, au_type = action_type,
      au_target = target, au_parameters = params, au_context = Some ctx,
      au_allowed = va_allowed result,
      au_require_approval = Some (get_or (va_require_approval result) False),
      au_reason = va_reason result\<rparr>"

definition violation_incident ::
  "env \<Rightarrow> string \<Rightarrow> string \<Rightarrow> string \<Rightarrow> va_result \<Rightarrow> incident" where
  "violation_incident e action_type target agent_id result =
     \<lparr>inc_incident_id = env_incident_id e, inc_timestamp = env_timestamp e,
      inc_type = ''policy_violation'', inc_severity = ''medium'',
      inc_agent_id = Some agent_id, inc_action_id = Some (env_action_id e),
      inc_details = Some (''Agent '' @ q agent_id @ '' attempted '' @ q action_type @ '' on ''
        @ q target @ '' - DENIED: '' @ va_reason result),
      inc_description = None, inc_evidence = None, inc_recommended_action = None,
      inc_status = None, inc_resolution = None\<rparr>"

text \<open>
  The result pairs what the call returns (\<open>Inl\<close>: the exception that leaves it) with
  the store it leaves behind: the auto-registration is saved before the evaluation, so
  it stays when the evaluation raises.
\<close>

definition validate_action ::
  "env \<Rightarrow> string \<Rightarrow> string \<Rightarrow> string \<Rightarrow> json json_arg \<Rightarrow> string \<Rightarrow> store
     \<Rightarrow> (error + va_result) \<times> store" where
  "validate_action e action_type target agent_id parameters ctx s =
     (let params = parse_params parameters;
          action_id = env_action_id e;
          timestamp = env_timestamp e;
          policies = st_policies s;
          agents = auto_register agent_id timestamp (st_agents s);
          s1 = s\<lparr>st_agents := agents\<rparr>;
          agent = get_or (agents agent_id) empty_agent
      in case (if ag_status agent = Some ''suspended''
               then Inr (suspended_result action_id agent_id)
               else case evaluate_policies action_type target agent_id params agents policies of
                      Inl err \<Rightarrow> Inl err
                    | Inr eval_result \<Rightarrow> Inr (evaluated_result action_id eval_result)) of
           Inl err \<Rightarrow> (Inl err, s1)
         | Inr result \<Rightarrow>
             (let s2 = s1\<lparr>st_audit_log := append_to_json_list (st_audit_log s1)
                         (validation_audit_entry e action_type target agent_id params ctx result)\<rparr>;
                  s3 = (if \<not> va_allowed result
                        then s2\<lparr>st_incidents := append_to_json_list (st_incidents s2)
                               (violation_incident e action_type target agent_id result)\<rparr>
                        else s2)
              in (Inr result, s3)))"

subsection \<open>\<^verbatim>\<open>create_policy\<close>\<close>

text \<open>An element of the parsed rule array: a JSON object, read as a rule, or any other
  JSON value.\<close>

datatype rule_item = NonObject json | RuleObj rule

definition condition_empty :: "condition option \<Rightarrow> bool" where
  "condition_empty c =
     (case c of
        None \<Rightarrow> True
      | Some d \<Rightarrow> co_tool_pattern d = None \<and> co_action_type d = None
          \<and> co_trust_level_at_least d = None \<and> co_trust_level_below d = None
          \<and> co_other d = [])"

definition valid_actions :: "string list" where
  "valid_actions = [''allow'', ''deny'', ''require_approval'']"

definition valid_actions_repr :: string where
  "valid_actions_repr = ''['' @ q ''allow'' @ '', '' @ q ''deny'' @ '', '' @ q ''require_approval'' @ '']''"

fun validate_rules_from :: "nat \<Rightarrow> rule_item list \<Rightarrow> bool \<times> string" where
  "validate_rules_from i [] = (True, [])"
| "validate_rules_from i (NonObject j # rest) =
     (False, ''Rule '' @ str_nat i @ '' must be an object'')"
| "validate_rules_from i (RuleObj rule # rest) =
     (if condition_empty (ru_condition rule) then
        (False, ''Rule '' @ str_nat i @ '' must have a '' @ q ''condition'' @ '' object'')
      else if get_or (ru_action rule) ''deny'' \<notin> set valid_actions then
        (False, ''Rule '' @ str_nat i @ '' has invalid action '' @ q (get_or (ru_action rule) ''deny'')
           @ ''. Must be one of: '' @ valid_actions_repr)
      else validate_rules_from (Suc i) rest)"

definition validate_policy_rules :: "rule_item list \<Rightarrow> bool \<times> string" where
  "validate_policy_rules rules =
     (if rules = [] then (False, ''Policy must have at least one rule'')
      else validate_rules_from 0 rules)"

record cp_result =
  cp_success :: bool
  cp_policy_id :: string
  cp_message :: string

fun existing_idx :: "string \<Rightarrow> policy list \<Rightarrow> nat option" where
  "existing_idx policy_id [] = None"
| "existing_idx policy_id (p # ps) =
     (if po_id p = Some policy_id then Some 0 else map_option Suc (existing_idx policy_id ps))"

definition rules_of :: "rule_item list \<Rightarrow> rule list" where
  "rules_of items = concat (map (\<lambda>i. case i of RuleObj r \<Rightarrow> [r] | NonObject j \<Rightarrow> []) items)"

definition sort_by_priority :: "policy list \<Rightarrow> policy list" where
  "sort_by_priority ps = sort_key (\<lambda>p. - get_or (po_priority p) 0) ps"

definition create_policy ::
  "env \<Rightarrow> string \<Rightarrow> string \<Rightarrow> string \<Rightarrow> rule_item list json_arg \<Rightarrow> int \<Rightarrow> bool \<Rightarrow> store
     \<Rightarrow> cp_result \<times> store" where
  "create_policy e policy_id name description rules priority enabled s =
     (let timestamp = env_timestamp e
      in case rules of
           Invalid raw msg \<Rightarrow>
             (\<lparr>cp_success = False, cp_policy_id = policy_id,
               cp_message = ''Invalid rules JSON: '' @ msg\<rparr>, s)
         | _ \<Rightarrow>
             (let rules_list = (case rules of Valid l \<Rightarrow> l | _ \<Rightarrow> []);
                  (is_valid, error_msg) = validate_policy_rules rules_list
              in if \<not> is_valid then
                   (\<lparr>cp_success = False, cp_policy_id = policy_id,
                     cp_message = ''Invalid policy rules: '' @ error_msg\<rparr>, s)
                 else
                   (let policies = st_policies s;
                        idx = existing_idx policy_id policies;
                        is_update = (idx \<noteq> None);
                        policy_record =
                          \<lparr>po_id = Some policy_id, po_name = Some name,
                           po_description = Some description,
                           po_rules = Some (rules_of rules_list),
                           po_priority = Some priority, po_enabled = Some enabled,
                           po_created_at = Some (case idx of
                               Some i \<Rightarrow> get_or (po_created_at (policies ! i)) timestamp
                             | None \<Rightarrow> timestamp),
                           po_updated_at = Some timestamp\<rparr>;
                        policies' = (case idx of
                            Some i \<Rightarrow> policies[i := policy_record]
                          | None \<Rightarrow> policies @ [policy_record]);
                        s1 = s\<lparr>st_policies := sort_by_priority policies'\<rparr>;
                        audit =
                          \<lparr>au_entry_id = env_audit_id e, au_action_id = None,
                           au_timestamp = timestamp, au_agent_id = ''guardian-system'',
                           au_type = ''policy_management'', au_target = policy_id,
                           au_parameters = JObj
                             [(''operation'', JStr (if is_update then ''update'' else ''create'')),
                              (''rules_count'', JNum (int (length rules_list))),
                              (''enabled'', JBool enabled)],
                           au_context = None, au_allowed = True, au_require_approval = None,
                           au_reason = ''Policy management completed''\<rparr>;
                        s2 = s1\<lparr>st_audit_log := append_to_json_list (st_audit_log s1) audit\<rparr>
                    in (\<lparr>cp_success = True, cp_policy_id = policy_id,
                         cp_message = ''Policy '' @ q name @ '' ('' @ policy_id @ '') ''
                           @ (if is_update then ''updated'' else ''created'')
                           @ '' successfully with '' @ str_nat (length rules_list) @ '' rules''\<rparr>,
                        s2))))"

subsection \<open>\<^verbatim>\<open>report_incident\<close>\<close>

record ri_result =
  ri_incident_id :: string
  ri_success :: bool
  ri_message :: string
  ri_agent_suspended :: bool
  ri_severity :: string
  ri_type :: string

definition valid_types :: "string list" where
  "valid_types = [''policy_violation'', ''suspicious_activity'', ''unauthorized_access'',
     ''rate_limit_exceeded'', ''data_exfiltration'', ''configuration_error'', ''other'']"

definition valid_severities :: "string list" where
  "valid_severities = [''low'', ''medium'', ''high'', ''critical'']"

definition suspend_agent :: "string \<Rightarrow> string \<Rightarrow> agent \<Rightarrow> agent" where
  "suspend_agent timestamp incident_id a =
     a\<lparr>ag_status := Some ''suspended'',
       ag_suspended_at := Some timestamp,
       ag_suspension_reason := Some (''Auto-suspended due to critical incident: '' @ incident_id)\<rparr>"

definition report_incident ::
  "env \<Rightarrow> string \<Rightarrow> string \<Rightarrow> string \<Rightarrow> string \<Rightarrow> json json_arg \<Rightarrow> string \<Rightarrow> store
     \<Rightarrow> ri_result \<times> store" where
  "report_incident e incident_type0 severity0 description agent_id evidence recommended_action s =
     (let timestamp = env_timestamp e;
          incident_id = env_incident_id e;
          incident_type = (if incident_type0 \<notin> set valid_types then ''other'' else incident_type0);
          severity = (if severity0 \<notin> set valid_severities then ''medium'' else severity0);
          evidence_data = (case evidence of
              Blank \<Rightarrow> JObj []
            | Invalid raw msg \<Rightarrow> JObj [(''raw'', JStr raw)]
            | Valid j \<Rightarrow> j);
          incident =
            \<lparr>inc_incident_id = incident_id, inc_timestamp = timestamp,
             inc_type = incident_type, inc_severity = severity,
             inc_agent_id = (if agent_id \<noteq> [] then Some agent_id else None),
             inc_action_id = None, inc_details = None,
             inc_description = Some description, inc_evidence = Some evidence_data,
             inc_recommended_action = Some recommended_action,
             inc_status = Some ''open'', inc_resolution = Some JNull\<rparr>;
          s1 = s\<lparr>st_incidents := append_to_json_list (st_incidents s) incident\<rparr>;
          (agent_suspended, s2) =
            (if severity = ''critical'' \<and> agent_id \<noteq> [] then
               (case st_agents s1 agent_id of
                  Some a \<Rightarrow>
                    (True, s1\<lparr>st_agents := (st_agents s1)(agent_id \<mapsto>
                                suspend_agent timestamp incident_id a)\<rparr>)
                | None \<Rightarrow> (False, s1))
             else (False, s1));
          audit =
            \<lparr>au_entry_id = env_audit_id e, au_action_id = None,
             au_timestamp = timestamp, au_agent_id = ''guardian-system'',
             au_type = ''incident_report'', au_target = incident_id,
             au_parameters = JObj
               [(''incident_type'', JStr incident_type), (''severity'', JStr severity),
                (''related_agent'', JStr agent_id)],
             au_context = None, au_allowed = True, au_require_approval = None,
             au_reason = ''Incident logged for investigation''\<rparr>;
          s3 = s2\<lparr>st_audit_log := append_to_json_list (st_audit_log s2) audit\<rparr>;
          message = ''Incident '' @ q incident_id @ '' logged with severity '' @ q severity
            @ (if agent_suspended
               then '' - Agent '' @ q agent_id @ '' has been automatically suspended''
               else [])
      in (\<lparr>ri_incident_id = incident_id, ri_success = True, ri_message = message,
           ri_agent_suspended = agent_suspended, ri_severity = severity,
           ri_type = incident_type\<rparr>, s3))"

subsection \<open>The fixture of \<^verbatim>\<open>tests/test_tools.py\<close>\<close>

definition test_agent :: "string \<Rightarrow> string \<Rightarrow> string \<Rightarrow> string \<Rightarrow> agent" where
  "test_agent agent_id name trust_level status =
     empty_agent\<lparr>ag_agent_id := Some agent_id, ag_name := Some name,
       ag_trust_level := Some trust_level, ag_allowed_tools := Some [],
       ag_denied_tools := Some [], ag_status := Some status\<rparr>"

definition test_agents :: "string \<rightharpoonup> agent" where
  "test_agents = map_of
     [(''test-low'', test_agent ''test-low'' ''Low Trust'' ''low'' ''active''),
      (''test-medium'', test_agent ''test-medium'' ''Medium Trust'' ''medium'' ''active''),
      (''test-high'', test_agent ''test-high'' ''High Trust'' ''high'' ''active''),
      (''test-admin'', test_agent ''test-admin'' ''Admin'' ''admin'' ''active''),
      (''test-suspended'', test_agent ''test-suspended'' ''Suspended'' ''medium'' ''suspended'')]"

definition delete_rule :: rule where
  "delete_rule =
     \<lparr>ru_condition = Some (empty_condition\<lparr>co_tool_pattern := Some ''delete_*'',
        co_trust_level_below := Some ''admin''\<rparr>),
      ru_action = Some ''deny'', ru_message = Some ''Delete requires admin''\<rparr>"

definition read_rule :: rule where
  "read_rule =
     \<lparr>ru_condition = Some (empty_condition\<lparr>co_tool_pattern := Some ''read_*'',
        co_trust_level_at_least := Some ''low''\<rparr>),
      ru_action = Some ''allow'', ru_message = Some ''Read allowed''\<rparr>"

definition test_policy :: policy where
  "test_policy =
     \<lparr>po_id = Some ''test-policy'', po_name = Some ''Test Policy'', po_description = None,
      po_rules = Some [delete_rule, read_rule],
      po_priority = Some 100, po_enabled = Some True,
      po_created_at = None, po_updated_at = None\<rparr>"

definition test_store :: store where
  "test_store = \<lparr>st_agents = test_agents, st_policies = [test_policy],
     st_audit_log = [], st_incidents = []\<rparr>"

definition test_env :: env where
  "test_env = \<lparr>env_action_id = ''act_000000000001'', env_audit_id = ''aud_000000000002'',
     env_incident_id = ''inc_000000000003'', env_timestamp = ''2025-01-01T00:00:00+00:00''\<rparr>"

subsection \<open>The matcher as the specification words it\<close>

text \<open>
  The specification's contract of the pattern matcher, written down from its words and
  not from the code, to compare the code with: every \<^verbatim>\<open>*\<close> of the pattern stands
  for zero or more arbitrary characters, every other character of the pattern stands
  for itself, letters compare without case, and the whole value has to be consumed.
\<close>

fun glob_spec :: "string \<Rightarrow> string \<Rightarrow> bool" where
  "glob_spec [] v = (v = [])"
| "glob_spec (p # ps) [] = (p = CHR ''*'' \<and> glob_spec ps [])"
| "glob_spec (p # ps) (c # cs) =
     (if p = CHR ''*'' then glob_spec ps (c # cs) \<or> glob_spec (p # ps) cs
      else ascii_lower p = ascii_lower c \<and> glob_spec ps cs)"

text \<open>The characters that mean nothing but themselves to \<^verbatim>\<open>re\<close>.\<close>

definition plain_char :: "char \<Rightarrow> bool" where
  "plain_char c = (is_ascii c \<and> c \<notin> set ''.^$*+?{}[]|()'' \<and> c \<noteq> CHR 0x5C)"

definition item_of :: "char \<Rightarrow> item" where
  "item_of c = (if c = CHR ''*'' then Star AnyChar else One (Lit c))"

subsection \<open>Further stores and rules, used as concrete inputs\<close>

text \<open>The agent \<^verbatim>\<open>test-low\<close> registered with a deny list whose first pattern has a
  stray closing parenthesis.\<close>

definition bad_deny_store :: store where
  "bad_deny_store = test_store\<lparr>st_agents := test_agents(''test-low'' \<mapsto>
      (test_agent ''test-low'' ''Low Trust'' ''low'' ''active'')
        \<lparr>ag_denied_tools := Some [''rm)'', ''delete_*'']\<rparr>)\<rparr>"

definition high_only_rule :: rule where
  "high_only_rule =
     \<lparr>ru_condition = Some (empty_condition\<lparr>co_tool_pattern := Some ''deploy_*'',
        co_trust_level_at_least := Some ''high''\<rparr>),
      ru_action = Some ''deny'', ru_message = Some ''Deploy needs high trust''\<rparr>"

text \<open>The rule of \<^verbatim>\<open>test_reject_invalid_action\<close>.\<close>

definition explode_rule :: rule where
  "explode_rule =
     \<lparr>ru_condition = Some (empty_condition\<lparr>co_tool_pattern := Some ''test_*''\<rparr>),
      ru_action = Some ''explode'', ru_message = Some ''Invalid''\<rparr>"

text \<open>The test store after a \<^verbatim>\<open>validate_action\<close> call with the empty agent id, which
  auto-registers it.\<close>

definition anon_store :: store where
  "anon_store =
     test_store\<lparr>st_agents := test_agents([] \<mapsto> auto_agent [] ''2024-12-31T00:00:00+00:00'')\<rparr>"

definition approval_rule :: rule where
  "approval_rule =
     \<lparr>ru_condition = Some (empty_condition\<lparr>co_tool_pattern := Some ''deploy_*'',
        co_trust_level_below := Some ''high''\<rparr>),
      ru_action = Some ''require_approval'', ru_message = Some ''Deploy needs sign-off''\<rparr>"

definition approval_store :: store where
  "approval_store = test_store\<lparr>st_policies :=
     [test_policy\<lparr>po_id := Some ''approve-deploy'', po_rules := Some [approval_rule]\<rparr>]\<rparr>"

text \<open>A deny rule that carries both trust clauses, and the test store with that rule as
  its only policy.\<close>

definition both_rule :: rule where
  "both_rule =
     \<lparr>ru_condition = Some (empty_condition\<lparr>co_tool_pattern := Some ''delete_*'',
        co_trust_level_at_least := Some ''admin'', co_trust_level_below := Some ''admin''\<rparr>),
      ru_action = Some ''deny'', ru_message = Some ''Delete requires admin''\<rparr>"

definition both_store :: store where
  "both_store = test_store\<lparr>st_policies :=
     [test_policy\<lparr>po_id := Some ''both-clauses'', po_rules := Some [both_rule]\<rparr>]\<rparr>"

section \<open>Properties\<close>

lemmas re_eval = match_pattern_def replace_star_def re_match_def is_ascii_def
  unmodelled_chars_def starts_with_star_def cons_item_def atom_ok_def ascii_lower_def
  newline_def

subsection \<open>The pattern matcher\<close>

text \<open>
  Where the code and the specification agree: on patterns made of stars and of
  characters that mean nothing to \<^verbatim>\<open>re\<close>, and on values without a newline, the matcher
  returns, and returns what the specification's glob says.
\<close>

lemma replace_star_Cons:
  "replace_star (c # ps) = (if c = CHR ''*'' then ''.*'' else [c]) @ replace_star ps"
  by (simp add: replace_star_def)

lemma not_star_rest:
  "\<forall>c \<in> set ps. plain_char c \<or> c = CHR ''*'' \<Longrightarrow>
   \<not> starts_with_star (replace_star ps @ ''$'')"
  by (cases ps) (auto simp: starts_with_star_def replace_star_def)

lemma parse_fragment:
  "\<forall>c \<in> set p. plain_char c \<or> c = CHR ''*'' \<Longrightarrow>
   re_parse (replace_star p @ ''$'') = Inr (map item_of p @ [Eol])"
proof (induction p)
  case Nil
  then show ?case
    by (simp add: replace_star_def is_ascii_def unmodelled_chars_def starts_with_star_def
        cons_item_def)
next
  case (Cons c ps)
  then have ih: "re_parse (replace_star ps @ ''$'') = Inr (map item_of ps @ [Eol])" by simp
  from Cons.prems have ns: "\<not> starts_with_star (replace_star ps @ ''$'')"
    by (intro not_star_rest) simp
  show ?case
  proof (cases "c = CHR ''*''")
    case True
    then show ?thesis using ih ns
      by (simp add: replace_star_Cons is_ascii_def unmodelled_chars_def starts_with_star_def
          cons_item_def item_of_def)
  next
    case False
    with Cons.prems have pc: "plain_char c" by simp
    then show ?thesis using ih ns False
      by (simp add: replace_star_Cons plain_char_def unmodelled_chars_def cons_item_def
          item_of_def)
  qed
qed

lemma items_fragment:
  "newline \<notin> set v \<Longrightarrow> re_items (map item_of p @ [Eol]) b v = glob_spec p v"
proof (induction p v arbitrary: b rule: glob_spec.induct)
  case (1 v)
  then show ?case by auto
next
  case (2 p ps)
  then show ?case by (simp add: item_of_def)
next
  case (3 p ps c cs)
  then show ?case by (auto simp: item_of_def atom_ok_def)
qed

lemma match_pattern_fragment:
  assumes "\<forall>c \<in> set p. plain_char c \<or> c = CHR ''*''"
      and "\<forall>c \<in> set v. is_ascii c \<and> c \<noteq> newline"
  shows "match_pattern p v = Inr (glob_spec p v)"
proof (cases "p = ''*''")
  case True
  have "glob_spec ''*'' v" by (induction v) auto
  with True show ?thesis by (simp add: match_pattern_def)
next
  case False
  from assms(1) have ns: "\<not> starts_with_star (replace_star p @ ''$'')" by (rule not_star_rest)
  have "re_parse (''^'' @ replace_star p @ ''$'') = Inr (Bol # map item_of p @ [Eol])"
    using parse_fragment [OF assms(1)] ns
    by (simp add: is_ascii_def unmodelled_chars_def cons_item_def)
  moreover have "newline \<notin> set v" using assms(2) by auto
  moreover have "list_all is_ascii v" using assms(2) by (simp add: list_all_iff)
  ultimately show ?thesis using False
    by (simp add: match_pattern_def re_match_def items_fragment)
qed

text \<open>
  Where the code leaves the specification: a closing parenthesis that follows only
  stars and plain characters makes the call raise, whatever comes after it and whatever
  the value is.
\<close>

lemma not_star_after:
  "\<forall>c \<in> set ps. plain_char c \<or> c = CHR ''*'' \<Longrightarrow> x \<noteq> CHR ''*'' \<Longrightarrow>
   \<not> starts_with_star (replace_star ps @ x # rest)"
  by (cases ps) (auto simp: starts_with_star_def replace_star_def)

lemma parse_unbalanced:
  "\<forall>c \<in> set pre. plain_char c \<or> c = CHR ''*'' \<Longrightarrow>
   re_parse (replace_star pre @ CHR '')'' # rest) = Inl ReError"
proof (induction pre)
  case Nil
  then show ?case
    by (simp add: replace_star_def is_ascii_def unmodelled_chars_def)
next
  case (Cons c ps)
  then have ih: "re_parse (replace_star ps @ CHR '')'' # rest) = Inl ReError" by simp
  from Cons.prems have ns: "\<not> starts_with_star (replace_star ps @ CHR '')'' # rest)"
    by (intro not_star_after) simp_all
  show ?case
  proof (cases "c = CHR ''*''")
    case True
    then show ?thesis using ih ns
      by (simp add: replace_star_Cons is_ascii_def unmodelled_chars_def starts_with_star_def
          cons_item_def)
  next
    case False
    with Cons.prems have pc: "plain_char c" by simp
    then show ?thesis using ih ns False
      by (simp add: replace_star_Cons plain_char_def unmodelled_chars_def cons_item_def)
  qed
qed

lemma replace_star_append: "replace_star (xs @ ys) = replace_star xs @ replace_star ys"
  by (simp add: replace_star_def)

lemma match_pattern_unbalanced_raises:
  assumes "\<forall>c \<in> set pre. plain_char c \<or> c = CHR ''*''"
  shows "match_pattern (pre @ CHR '')'' # rest) v = Inl ReError"
proof -
  have ne: "pre @ CHR '')'' # rest \<noteq> ''*''"
    by (cases pre) auto
  have ns: "\<not> starts_with_star (replace_star pre @ CHR '')'' # (replace_star rest @ ''$''))"
    using assms by (intro not_star_after) simp_all
  have "re_parse (''^'' @ replace_star (pre @ CHR '')'' # rest) @ ''$'') = Inl ReError"
    using parse_unbalanced [OF assms, of "replace_star rest @ ''$''"] ns
    by (simp add: replace_star_append replace_star_Cons is_ascii_def unmodelled_chars_def
        cons_item_def)
  then show ?thesis using ne by (simp add: match_pattern_def re_match_def)
qed

text \<open>
  C5. The claim: for every pattern and every value the matcher returns a boolean and
  never raises. The code hands the pattern to \<^verbatim>\<open>re\<close> without escaping it, so a pattern
  that is not a well-formed regular expression raises \<^verbatim>\<open>re.error\<close>: the pattern
  \<^verbatim>\<open>)\<close> against the value \<^verbatim>\<open>x\<close> does.
\<close>

theorem match_pattern_raises:
  "match_pattern '')'' ''x'' = Inl ReError"
  by (simp add: re_eval)

text \<open>
  C6. The claim: for a pattern other than \<^verbatim>\<open>*\<close>, the matcher holds exactly when the
  value is the pattern with each star expanded, every other character literal, without
  case, anchored at both ends. The code differs from that glob in three ways: a dot of
  the pattern matches any character (\<^verbatim>\<open>a.c\<close> matches \<^verbatim>\<open>abc\<close>), the end anchor lets a
  final newline of the value go (\<^verbatim>\<open>abc\<close> matches \<^verbatim>\<open>abc\<close> followed by a newline), and a
  star does not expand to a newline (\<^verbatim>\<open>a*c\<close> does not match \<^verbatim>\<open>a\<close>, newline, \<^verbatim>\<open>c\<close>).
\<close>

theorem match_pattern_differs_from_glob:
  "match_pattern ''a.c'' ''abc'' = Inr True \<and> \<not> glob_spec ''a.c'' ''abc''
   \<and> match_pattern ''abc'' (''abc'' @ [newline]) = Inr True
   \<and> \<not> glob_spec ''abc'' (''abc'' @ [newline])
   \<and> match_pattern ''a*c'' [CHR ''a'', newline, CHR ''c''] = Inr False
   \<and> glob_spec ''a*c'' [CHR ''a'', newline, CHR ''c'']"
  by (simp add: re_eval)

subsection \<open>Suspended agents\<close>

text \<open>
  C1. For an agent whose stored record has status \<^verbatim>\<open>suspended\<close>, \<open>validate_action\<close>
  returns \<open>allowed = False\<close> with a reason that names the agent. The returned value
  is the same for every policy collection and for every content of the agent's tool
  lists: neither occurs on the right-hand side, and the store \<open>s\<close> and the record \<open>a\<close>
  are arbitrary.
\<close>

theorem suspended_agent_denied:
  assumes "st_agents s agent_id = Some a" and "ag_status a = Some ''suspended''"
  shows "fst (validate_action e action_type target agent_id parameters ctx s) =
           Inr \<lparr>va_action_id = env_action_id e, va_allowed = False, va_require_approval = None,
                va_reason = ''Agent '' @ q agent_id @ '' is suspended'', va_warnings = []\<rparr>"
  using assms
  by (simp add: validate_action_def auto_register_def suspended_result_def get_or_def Let_def)

theorem suspended_agent_denied_witness:
  "st_agents test_store ''test-suspended'' =
     Some (test_agent ''test-suspended'' ''Suspended'' ''medium'' ''suspended'')
   \<and> ag_status (test_agent ''test-suspended'' ''Suspended'' ''medium'' ''suspended'') =
       Some ''suspended''
   \<and> fst (validate_action test_env ''tool_call'' ''read_data'' ''test-suspended'' Blank []
         test_store) =
       Inr \<lparr>va_action_id = ''act_000000000001'', va_allowed = False, va_require_approval = None,
            va_reason = ''Agent '' @ q ''test-suspended'' @ '' is suspended'', va_warnings = []\<rparr>"
proof -
  have a: "st_agents test_store ''test-suspended'' =
      Some (test_agent ''test-suspended'' ''Suspended'' ''medium'' ''suspended'')"
    by (simp add: test_store_def test_agents_def)
  have b: "ag_status (test_agent ''test-suspended'' ''Suspended'' ''medium'' ''suspended'') =
      Some ''suspended''"
    by (simp add: test_agent_def)
  show ?thesis
    using a b suspended_agent_denied
      [OF a b, of test_env "''tool_call''" "''read_data''" Blank "[]"]
    by (simp add: test_env_def)
qed

subsection \<open>The agent's deny list\<close>

text \<open>
  When no pattern of a list raises, the loop finds a match exactly when some pattern
  matches; and once the loop over the deny list has found a match, the decision is the
  explicit denial, whatever the allow list and the policies hold.
\<close>

lemma any_match_no_raise:
  "\<forall>p \<in> set ps. \<exists>b. match_pattern p target = Inr b \<Longrightarrow>
   any_match ps target = Inr (\<exists>p \<in> set ps. match_pattern p target = Inr True)"
  by (induction ps) (auto split: sum.splits bool.splits)

lemma any_match_True_nonempty: "any_match ps target = Inr True \<Longrightarrow> ps \<noteq> []"
  by (cases ps) auto

lemma deny_list_precedence:
  assumes "agents agent_id = Some a" and "ag_denied_tools a = Some denied"
      and "any_match denied target = Inr True"
  shows "evaluate_policies action_type target agent_id params agents policies =
           Inr (denied_decision target agent_id)"
  using assms any_match_True_nonempty [OF assms(3)]
  by (simp add: evaluate_policies_def get_or_def Let_def)

text \<open>
  C2. The claim: for a non-suspended agent and a target that matches at least one
  pattern of its deny list, the decision is deny, before the allow list and before any
  policy rule. The loop stops at the first pattern that raises: with the deny list
  \<^verbatim>\<open>["rm)", "delete_*"]\<close> the target \<^verbatim>\<open>delete_records\<close> matches the second pattern,
  and the call ends in \<^verbatim>\<open>re.error\<close> at the first, with no decision.
\<close>

theorem denied_tools_scan_raises:
  "match_pattern ''delete_*'' ''delete_records'' = Inr True
   \<and> fst (validate_action test_env ''tool_call'' ''delete_records'' ''test-low'' Blank []
        bad_deny_store) = Inl ReError"
  by (simp add: re_eval bad_deny_store_def test_store_def test_agents_def test_agent_def
      validate_action_def auto_register_def evaluate_policies_def get_or_def Let_def
      empty_agent_def)

subsection \<open>The trust clauses of a rule\<close>

lemma trust_score_pos: "1 \<le> trust_score l"
  by (auto simp: trust_score_def trust_levels_def)

lemma trust_score_empty: "trust_score [] = 1"
  by (simp add: trust_score_def trust_levels_def)

text \<open>
  Rules and policies that decide nothing hand the evaluation on to what follows them,
  and an agent that passes its own deny and allow lists gets what the policy loop
  returns, or the default.
\<close>

lemma eval_rules_append:
  "eval_rules action_type target lvl policy rules_before = Inr None \<Longrightarrow>
   eval_rules action_type target lvl policy (rules_before @ rs) = eval_rules action_type target lvl policy rs"
  by (induction rules_before) (auto split: sum.splits option.splits)

lemma eval_policy_list_append:
  "eval_policy_list action_type target lvl earlier = Inr None \<Longrightarrow>
   eval_policy_list action_type target lvl (earlier @ ps) = eval_policy_list action_type target lvl ps"
  by (induction earlier) (auto split: sum.splits option.splits if_splits)

lemma eval_rule_below:
  assumes "ru_condition rule = Some cond"
      and "pattern_ok (co_tool_pattern cond) target = Inr True"
      and "pattern_ok (co_action_type cond) action_type = Inr True"
      and "\<forall>required. co_trust_level_at_least cond = Some required \<longrightarrow>
             \<not> (trust_score lvl < trust_score required
                \<and> get_or (ru_action rule) ''deny'' = ''deny'')"
      and "co_trust_level_below cond = Some below_trust"
  shows "eval_rule action_type target lvl policy rule =
     Inr (if trust_score lvl < trust_score below_trust then
            (if get_or (ru_action rule) ''deny'' = ''deny'' then
               Some \<lparr>de_allowed = False, de_require_approval = None,
                 de_reason = get_or (ru_message rule)
                   (''Access denied by policy '' @ q (get_or (po_id policy) ''None'')),
                 de_policy_matched = policy_id_or_unknown policy\<rparr>
             else if get_or (ru_action rule) ''deny'' = ''require_approval'' then
               Some \<lparr>de_allowed = False, de_require_approval = Some True,
                 de_reason = get_or (ru_message rule) ''This action requires human approval'',
                 de_policy_matched = policy_id_or_unknown policy\<rparr>
             else None)
          else None)"
proof -
  have al: "at_least_clause target lvl policy rule cond = None"
    using assms(4) by (auto simp: at_least_clause_def split: option.splits)
  have main: "eval_rule action_type target lvl policy rule =
      Inr (below_clause lvl policy rule cond)"
    using assms(1-3) al by (simp add: eval_rule_def get_or_def)
  have nb: "below_trust = [] \<Longrightarrow> \<not> trust_score lvl < trust_score below_trust"
    using trust_score_pos [of lvl] by (simp add: trust_score_empty)
  show ?thesis unfolding main using assms(5) nb by (auto simp: below_clause_def)
qed

lemma evaluate_policies_after_lists:
  assumes "agents agent_id = Some a"
      and "any_match (get_or (ag_denied_tools a) []) target = Inr False"
      and "get_or (ag_allowed_tools a) [] = [] \<or> get_or (ag_allowed_tools a) [] = [''*'']
           \<or> any_match (get_or (ag_allowed_tools a) []) target = Inr True"
  shows "evaluate_policies action_type target agent_id params agents policies =
     (case eval_policy_list action_type target (get_or (ag_trust_level a) ''low'') policies of
        Inl err \<Rightarrow> Inl err
      | Inr (Some d) \<Rightarrow> Inr d
      | Inr None \<Rightarrow> Inr default_allow)"
  using assms
  by (auto simp: evaluate_policies_def Let_def get_or_def split: sum.splits option.splits)

text \<open>
  C3, as the claim states it: a deny rule whose \<^verbatim>\<open>trust_level_below\<close> is satisfied
  yields a denial with the rule's message. The block for \<^verbatim>\<open>trust_level_at_least\<close>
  stands before the block for \<^verbatim>\<open>trust_level_below\<close>: a deny rule that carries both,
  each naming \<^verbatim>\<open>admin\<close>, denies a low agent with the reason of the first block
  (required against actual trust level) and never reaches the rule's message.
\<close>

theorem trust_level_below_reason_counterexample:
  "co_trust_level_below (get_or (ru_condition both_rule) empty_condition) = Some ''admin''
   \<and> trust_score ''low'' < trust_score ''admin''
   \<and> ru_action both_rule = Some ''deny''
   \<and> ru_message both_rule = Some ''Delete requires admin''
   \<and> fst (validate_action test_env ''tool_call'' ''delete_records'' ''test-low'' Blank []
        both_store) =
       Inr \<lparr>va_action_id = ''act_000000000001'', va_allowed = False,
            va_require_approval = Some False,
            va_reason = ''Tool '' @ q ''delete_records'' @ '' requires trust level ''
              @ q ''admin'' @ '', agent has '' @ q ''low'',
            va_warnings = []\<rparr>
   \<and> ''Tool '' @ q ''delete_records'' @ '' requires trust level '' @ q ''admin''
        @ '', agent has '' @ q ''low'' \<noteq> ''Delete requires admin''"
  by (simp add: re_eval both_rule_def both_store_def test_store_def test_agents_def
      test_agent_def test_policy_def test_env_def empty_condition_def validate_action_def
      auto_register_def evaluate_policies_def get_or_def Let_def empty_agent_def eval_rule_def
      pattern_ok_def at_least_clause_def policy_id_or_unknown_def trust_score_def
      trust_levels_def evaluated_result_def parse_params_def q_def)

text \<open>
  C3, amended. Take an agent that passes its own deny and allow lists, and a rule of an
  enabled policy such that no earlier policy and no earlier rule of the policy decides,
  the rule's tool pattern and action type (where present) match, and its
  \<^verbatim>\<open>trust_level_at_least\<close> clause, where present, does not deny (the agent meets the
  level, or the rule's action is not \<^verbatim>\<open>deny\<close>). With \<^verbatim>\<open>trust_level_below\<close> present
  the rule triggers exactly when the agent's score is strictly below the score of the
  named level: with action \<^verbatim>\<open>deny\<close> (also the default of a rule without action) the
  evaluation returns a denial with the rule's message, with \<^verbatim>\<open>require_approval\<close> it
  returns \<open>require_approval = True\<close> with the rule's message (each with the code's default
  text when the rule has no message), and with any other action, \<^verbatim>\<open>allow\<close> among them,
  or when the score is not below, the evaluation goes on with the rules and policies
  that follow and ends in the default allow when none decides. The scores are low 1,
  medium 2, high 3, admin 4; an admin agent against \<^verbatim>\<open>trust_level_below: admin\<close> does
  not trigger, and in the test fixture the admin's \<^verbatim>\<open>delete_records\<close> is allowed by
  default.
\<close>

theorem trust_level_below_decides:
  assumes "agents agent_id = Some a"
      and "lvl = get_or (ag_trust_level a) ''low''"
      and "any_match (get_or (ag_denied_tools a) []) target = Inr False"
      and "get_or (ag_allowed_tools a) [] = [] \<or> get_or (ag_allowed_tools a) [] = [''*'']
           \<or> any_match (get_or (ag_allowed_tools a) []) target = Inr True"
      and "eval_policy_list action_type target lvl earlier = Inr None"
      and "get_or (po_enabled policy) True"
      and "get_or (po_rules policy) [] = rules_before @ rule # rules_after"
      and "eval_rules action_type target lvl policy rules_before = Inr None"
      and "ru_condition rule = Some cond"
      and "pattern_ok (co_tool_pattern cond) target = Inr True"
      and "pattern_ok (co_action_type cond) action_type = Inr True"
      and "\<forall>required. co_trust_level_at_least cond = Some required \<longrightarrow>
             \<not> (trust_score lvl < trust_score required
                \<and> get_or (ru_action rule) ''deny'' = ''deny'')"
      and "co_trust_level_below cond = Some below_trust"
  shows "evaluate_policies action_type target agent_id params agents (earlier @ policy # later) =
     (if trust_score lvl < trust_score below_trust
         \<and> get_or (ru_action rule) ''deny'' = ''deny'' then
        Inr \<lparr>de_allowed = False, de_require_approval = None,
             de_reason = get_or (ru_message rule)
               (''Access denied by policy '' @ q (get_or (po_id policy) ''None'')),
             de_policy_matched = policy_id_or_unknown policy\<rparr>
      else if trust_score lvl < trust_score below_trust
         \<and> get_or (ru_action rule) ''deny'' = ''require_approval'' then
        Inr \<lparr>de_allowed = False, de_require_approval = Some True,
             de_reason = get_or (ru_message rule) ''This action requires human approval'',
             de_policy_matched = policy_id_or_unknown policy\<rparr>
      else
        (case eval_rules action_type target lvl policy rules_after of
           Inl err \<Rightarrow> Inl err
         | Inr (Some d) \<Rightarrow> Inr d
         | Inr None \<Rightarrow>
             (case eval_policy_list action_type target lvl later of
                Inl err \<Rightarrow> Inl err
              | Inr (Some d) \<Rightarrow> Inr d
              | Inr None \<Rightarrow> Inr default_allow)))
    \<and> trust_score ''low'' = 1 \<and> trust_score ''medium'' = 2 \<and> trust_score ''high'' = 3
    \<and> trust_score ''admin'' = 4
    \<and> (lvl = ''admin'' \<and> below_trust = ''admin'' \<and> rules_after = [] \<and> later = [] \<longrightarrow>
         evaluate_policies action_type target agent_id params agents (earlier @ policy # later) =
           Inr default_allow)
    \<and> evaluate_policies ''tool_call'' ''delete_records'' ''test-admin'' (JObj []) test_agents
         [test_policy] = Inr default_allow"
proof -
  let ?deny = "\<lparr>de_allowed = False, de_require_approval = None,
             de_reason = get_or (ru_message rule)
               (''Access denied by policy '' @ q (get_or (po_id policy) ''None'')),
             de_policy_matched = policy_id_or_unknown policy\<rparr>"
  let ?appr = "\<lparr>de_allowed = False, de_require_approval = Some True,
             de_reason = get_or (ru_message rule) ''This action requires human approval'',
             de_policy_matched = policy_id_or_unknown policy\<rparr>"
  let ?rest = "case eval_rules action_type target lvl policy rules_after of
           Inl err \<Rightarrow> Inl err
         | Inr (Some d) \<Rightarrow> Inr d
         | Inr None \<Rightarrow>
             (case eval_policy_list action_type target lvl later of
                Inl err \<Rightarrow> Inl err
              | Inr (Some d) \<Rightarrow> Inr d
              | Inr None \<Rightarrow> Inr default_allow)"
  have sc: "trust_score ''low'' = 1 \<and> trust_score ''medium'' = 2 \<and> trust_score ''high'' = 3
    \<and> trust_score ''admin'' = 4"
    by (simp add: trust_score_def trust_levels_def)
  have r: "eval_rule action_type target lvl policy rule =
     Inr (if trust_score lvl < trust_score below_trust then
            (if get_or (ru_action rule) ''deny'' = ''deny'' then Some ?deny
             else if get_or (ru_action rule) ''deny'' = ''require_approval'' then Some ?appr
             else None)
          else None)"
    using assms(9-13) by (rule eval_rule_below)
  have rs: "eval_rules action_type target lvl policy (rules_before @ rule # rules_after) =
      eval_rules action_type target lvl policy (rule # rules_after)"
    using assms(8) by (rule eval_rules_append)
  have ps: "eval_policy_list action_type target lvl (earlier @ policy # later) =
      eval_policy_list action_type target lvl (policy # later)"
    using assms(5) by (rule eval_policy_list_append)
  have ev: "evaluate_policies action_type target agent_id params agents (earlier @ policy # later) =
     (case eval_policy_list action_type target lvl (earlier @ policy # later) of
        Inl err \<Rightarrow> Inl err
      | Inr (Some d) \<Rightarrow> Inr d
      | Inr None \<Rightarrow> Inr default_allow)"
    unfolding assms(2) using assms(1,3,4) by (rule evaluate_policies_after_lists)
  have first: "evaluate_policies action_type target agent_id params agents (earlier @ policy # later) =
     (if trust_score lvl < trust_score below_trust
         \<and> get_or (ru_action rule) ''deny'' = ''deny'' then Inr ?deny
      else if trust_score lvl < trust_score below_trust
         \<and> get_or (ru_action rule) ''deny'' = ''require_approval'' then Inr ?appr
      else ?rest)"
    unfolding ev ps using assms(6,7) rs r
    by (simp split: sum.splits option.splits)
  have adm: "lvl = ''admin'' \<and> below_trust = ''admin'' \<and> rules_after = [] \<and> later = [] \<longrightarrow>
         evaluate_policies action_type target agent_id params agents (earlier @ policy # later) =
           Inr default_allow"
    unfolding first by simp
  have scen: "evaluate_policies ''tool_call'' ''delete_records'' ''test-admin'' (JObj [])
      test_agents [test_policy] = Inr default_allow"
    by (simp add: re_eval test_agents_def test_agent_def test_policy_def delete_rule_def
      read_rule_def empty_condition_def evaluate_policies_def get_or_def Let_def empty_agent_def
      eval_rule_def pattern_ok_def at_least_clause_def below_clause_def trust_score_def
      trust_levels_def)
  show ?thesis using first sc adm scen by blast
qed

theorem trust_level_below_decides_witness:
  "test_agents ''test-low'' = Some (test_agent ''test-low'' ''Low Trust'' ''low'' ''active'')
   \<and> any_match [] ''delete_records'' = Inr False
   \<and> get_or (po_rules test_policy) [] = [] @ delete_rule # [read_rule]
   \<and> ru_condition delete_rule = Some (empty_condition\<lparr>co_tool_pattern := Some ''delete_*'',
        co_trust_level_below := Some ''admin''\<rparr>)
   \<and> pattern_ok (Some ''delete_*'') ''delete_records'' = Inr True
   \<and> pattern_ok None ''tool_call'' = Inr True
   \<and> trust_score ''low'' < trust_score ''admin''
   \<and> evaluate_policies ''tool_call'' ''delete_records'' ''test-low'' (JObj []) test_agents
        [test_policy] =
       Inr \<lparr>de_allowed = False, de_require_approval = None,
            de_reason = ''Delete requires admin'', de_policy_matched = ''test-policy''\<rparr>"
proof -
  let ?a = "test_agent ''test-low'' ''Low Trust'' ''low'' ''active''"
  let ?c = "empty_condition\<lparr>co_tool_pattern := Some ''delete_*'',
        co_trust_level_below := Some ''admin''\<rparr>"
  have h1: "test_agents ''test-low'' = Some ?a" by (simp add: test_agents_def)
  have h2: "''low'' = get_or (ag_trust_level ?a) ''low''"
    by (simp add: test_agent_def get_or_def)
  have h3: "any_match (get_or (ag_denied_tools ?a) []) ''delete_records'' = Inr False"
    by (simp add: test_agent_def get_or_def)
  have h4: "get_or (ag_allowed_tools ?a) [] = [] \<or> get_or (ag_allowed_tools ?a) [] = [''*'']
           \<or> any_match (get_or (ag_allowed_tools ?a) []) ''delete_records'' = Inr True"
    by (simp add: test_agent_def get_or_def)
  have h5: "eval_policy_list ''tool_call'' ''delete_records'' ''low'' [] = Inr None" by simp
  have h6: "get_or (po_enabled test_policy) True" by (simp add: test_policy_def get_or_def)
  have h7: "get_or (po_rules test_policy) [] = [] @ delete_rule # [read_rule]"
    by (simp add: test_policy_def get_or_def)
  have h8: "eval_rules ''tool_call'' ''delete_records'' ''low'' test_policy [] = Inr None"
    by simp
  have h9: "ru_condition delete_rule = Some ?c" by (simp add: delete_rule_def)
  have h10: "pattern_ok (co_tool_pattern ?c) ''delete_records'' = Inr True"
    by (simp add: pattern_ok_def re_eval empty_condition_def)
  have h11: "pattern_ok (co_action_type ?c) ''tool_call'' = Inr True"
    by (simp add: pattern_ok_def empty_condition_def)
  have h12: "\<forall>required. co_trust_level_at_least ?c = Some required \<longrightarrow>
             \<not> (trust_score ''low'' < trust_score required
                \<and> get_or (ru_action delete_rule) ''deny'' = ''deny'')"
    by (simp add: empty_condition_def)
  have h13: "co_trust_level_below ?c = Some ''admin''" by simp
  have sc: "trust_score ''low'' < trust_score ''admin''"
    by (simp add: trust_score_def trust_levels_def)
  have act: "get_or (ru_action delete_rule) ''deny'' = ''deny''"
    by (simp add: delete_rule_def get_or_def)
  have msg: "get_or (ru_message delete_rule) x = ''Delete requires admin''" for x
    by (simp add: delete_rule_def get_or_def)
  have pid: "policy_id_or_unknown test_policy = ''test-policy''"
    by (simp add: policy_id_or_unknown_def test_policy_def get_or_def)
  show ?thesis
    using h1 h7 h9 h10 h11 sc
      trust_level_below_decides
        [where agents = test_agents and agent_id = "''test-low''" and params = "JObj []"
           and later = "[]", OF h1 h2 h3 h4 h5 h6 h7 h8 h9 h10 h11 h12 h13]
    by (simp add: act msg pid empty_condition_def)
qed

lemma at_least_clause_eq:
  assumes "co_trust_level_at_least cond = Some required_trust"
  shows "at_least_clause target trust_level policy rule cond =
     (if trust_score trust_level < trust_score required_trust
         \<and> get_or (ru_action rule) ''deny'' = ''deny''
      then Some \<lparr>de_allowed = False, de_require_approval = None,
             de_reason = ''Tool '' @ q target @ '' requires trust level '' @ q required_trust
               @ '', agent has '' @ q trust_level,
             de_policy_matched = policy_id_or_unknown policy\<rparr>
      else None)"
proof -
  have "required_trust = [] \<Longrightarrow> \<not> trust_score trust_level < trust_score required_trust"
    using trust_score_pos [of trust_level] by (simp add: trust_score_empty)
  then show ?thesis using assms by (auto simp: at_least_clause_def)
qed

lemma below_clause_denies:
  "below_clause trust_level policy rule cond = Some d \<Longrightarrow> \<not> de_allowed d"
  by (auto simp: below_clause_def split: option.splits if_splits)

lemma at_least_clause_denies:
  "at_least_clause target trust_level policy rule cond = Some d \<Longrightarrow> \<not> de_allowed d"
  by (auto simp: at_least_clause_def split: option.splits if_splits)

lemma eval_rule_denies:
  "eval_rule action_type target trust_level policy rule = Inr (Some d) \<Longrightarrow> \<not> de_allowed d"
  by (auto simp: eval_rule_def Let_def split: sum.splits bool.splits option.splits
      dest: below_clause_denies at_least_clause_denies)

text \<open>
  C4. Take a rule that is reached and applies, with \<^verbatim>\<open>trust_level_at_least\<close> present.
  When the agent's score is below the required score and the rule's action is
  \<^verbatim>\<open>deny\<close>, the rule returns a denial whose reason states the required and the actual
  trust level. In every other case (another action, \<^verbatim>\<open>allow\<close> and
  \<^verbatim>\<open>require_approval\<close> among them, or an agent that meets the threshold) this clause
  decides nothing: the rule's outcome is what the \<^verbatim>\<open>trust_level_below\<close> block alone
  gives. And whatever the rule returns, it is never an allowing decision.
\<close>

theorem trust_level_at_least_only_denies:
  assumes "ru_condition rule = Some cond"
      and "pattern_ok (co_tool_pattern cond) target = Inr True"
      and "pattern_ok (co_action_type cond) action_type = Inr True"
      and "co_trust_level_at_least cond = Some required_trust"
  shows "(trust_score trust_level < trust_score required_trust
            \<and> get_or (ru_action rule) ''deny'' = ''deny'' \<longrightarrow>
          eval_rule action_type target trust_level policy rule =
            Inr (Some \<lparr>de_allowed = False, de_require_approval = None,
              de_reason = ''Tool '' @ q target @ '' requires trust level '' @ q required_trust
                @ '', agent has '' @ q trust_level,
              de_policy_matched = policy_id_or_unknown policy\<rparr>))
       \<and> (\<not> (trust_score trust_level < trust_score required_trust
               \<and> get_or (ru_action rule) ''deny'' = ''deny'') \<longrightarrow>
          eval_rule action_type target trust_level policy rule =
            Inr (below_clause trust_level policy rule cond))
       \<and> (\<forall>d. eval_rule action_type target trust_level policy rule = Inr (Some d) \<longrightarrow>
             \<not> de_allowed d)"
proof -
  have "eval_rule action_type target trust_level policy rule =
      (case at_least_clause target trust_level policy rule cond of
         Some d \<Rightarrow> Inr (Some d)
       | None \<Rightarrow> Inr (below_clause trust_level policy rule cond))"
    using assms by (simp add: eval_rule_def get_or_def)
  then show ?thesis
    using at_least_clause_eq [OF assms(4), of target trust_level policy rule] eval_rule_denies
    by auto
qed

theorem trust_level_at_least_only_denies_witness:
  "ru_condition high_only_rule = Some (empty_condition\<lparr>co_tool_pattern := Some ''deploy_*'',
        co_trust_level_at_least := Some ''high''\<rparr>)
   \<and> pattern_ok (Some ''deploy_*'') ''deploy_prod'' = Inr True
   \<and> pattern_ok None ''tool_call'' = Inr True
   \<and> trust_score ''medium'' < trust_score ''high''
   \<and> eval_rule ''tool_call'' ''deploy_prod'' ''medium'' test_policy high_only_rule =
       Inr (Some \<lparr>de_allowed = False, de_require_approval = None,
              de_reason = ''Tool '' @ q ''deploy_prod'' @ '' requires trust level '' @ q ''high''
                @ '', agent has '' @ q ''medium'',
              de_policy_matched = ''test-policy''\<rparr>)"
proof -
  let ?c = "empty_condition\<lparr>co_tool_pattern := Some ''deploy_*'',
        co_trust_level_at_least := Some ''high''\<rparr>"
  have h1: "ru_condition high_only_rule = Some ?c" by (simp add: high_only_rule_def)
  have h2: "pattern_ok (co_tool_pattern ?c) ''deploy_prod'' = Inr True"
    by (simp add: pattern_ok_def re_eval empty_condition_def)
  have h3: "pattern_ok (co_action_type ?c) ''tool_call'' = Inr True"
    by (simp add: pattern_ok_def empty_condition_def)
  have h4: "co_trust_level_at_least ?c = Some ''high''" by simp
  have sc: "trust_score ''medium'' < trust_score ''high''"
    by (simp add: trust_score_def trust_levels_def)
  have act: "get_or (ru_action high_only_rule) ''deny'' = ''deny''"
    by (simp add: high_only_rule_def get_or_def)
  show ?thesis
    using h1 h2 h3 sc act
      trust_level_at_least_only_denies [OF h1 h2 h3 h4, of "''medium''" test_policy]
    by (simp add: empty_condition_def policy_id_or_unknown_def test_policy_def get_or_def)
qed

subsection \<open>Only the default allows\<close>

lemma eval_rule_require_approval:
  "eval_rule action_type target trust_level policy rule = Inr (Some d) \<Longrightarrow>
   (de_require_approval d = Some True) = (get_or (ru_action rule) ''deny'' = ''require_approval'')"
  by (auto simp: eval_rule_def Let_def at_least_clause_def below_clause_def
      split: sum.splits bool.splits option.splits if_splits)

lemma eval_rules_denies:
  "eval_rules action_type target trust_level policy rules = Inr (Some d) \<Longrightarrow> \<not> de_allowed d"
  by (induction rules) (auto split: sum.splits option.splits dest: eval_rule_denies)

lemma eval_policy_list_denies:
  "eval_policy_list action_type target trust_level policies = Inr (Some d) \<Longrightarrow> \<not> de_allowed d"
  by (induction policies) (auto split: sum.splits option.splits if_splits dest: eval_rules_denies)

lemma evaluate_policies_allowed_default:
  "evaluate_policies action_type target agent_id params agents policies = Inr d \<Longrightarrow>
   de_allowed d \<Longrightarrow> d = default_allow"
  by (auto simp: evaluate_policies_def Let_def denied_decision_def not_allowed_decision_def
      split: sum.splits bool.splits option.splits if_splits dest: eval_policy_list_denies)

lemma evaluate_policies_require_approval:
  assumes "evaluate_policies action_type target agent_id params agents policies = Inr d"
      and "de_require_approval d = Some True"
  shows "\<not> de_allowed d"
proof
  assume "de_allowed d"
  with assms(1) have "d = default_allow" by (rule evaluate_policies_allowed_default)
  with assms(2) show False by (simp add: default_allow_def)
qed

subsection \<open>Rejected policies\<close>

text \<open>The index \<open>create_policy\<close> replaces at is in range and holds the policy of that id.\<close>

lemma existing_idx_Some:
  "existing_idx policy_id ps = Some i \<Longrightarrow> i < length ps \<and> po_id (ps ! i) = Some policy_id"
  by (induction ps arbitrary: i) (auto split: if_splits)

lemma validate_rules_from_invalid:
  assumes "RuleObj r \<in> set rules"
      and "condition_empty (ru_condition r)
           \<or> get_or (ru_action r) ''deny'' \<notin> set valid_actions"
  shows "\<not> fst (validate_rules_from i rules)"
  using assms
proof (induction i rules rule: validate_rules_from.induct)
  case (1 i)
  then show ?case by simp
next
  case (2 i j rest)
  then show ?case by simp
next
  case (3 i rule rest)
  then show ?case by auto
qed

lemma validate_policy_rules_invalid:
  assumes "rules = [] \<or> (\<exists>r. RuleObj r \<in> set rules
      \<and> (condition_empty (ru_condition r)
           \<or> get_or (ru_action r) ''deny'' \<notin> set valid_actions))"
  shows "\<not> fst (validate_policy_rules rules)"
  using assms validate_rules_from_invalid
  by (auto simp: validate_policy_rules_def)

text \<open>
  C7. \<open>create_policy\<close> with an invalid rule set (the empty rule text or the empty
  list; a list with a rule whose condition is absent or empty; a list with a rule whose
  action, \<^verbatim>\<open>deny\<close> when the rule names none, is not one of \<^verbatim>\<open>allow\<close>, \<^verbatim>\<open>deny\<close>,
  \<^verbatim>\<open>require_approval\<close>) returns \<open>success = False\<close> and leaves the whole store as it
  was: the policies, a policy under the same id among them, and the audit log.
\<close>

theorem create_policy_invalid_rules_unchanged:
  assumes "rules = Blank \<or> rules = Valid [] \<or>
     (\<exists>l r. rules = Valid l \<and> RuleObj r \<in> set l
        \<and> (condition_empty (ru_condition r)
             \<or> get_or (ru_action r) ''deny'' \<notin> set valid_actions))"
  shows "\<not> cp_success (fst (create_policy e policy_id name description rules priority enabled s))
       \<and> snd (create_policy e policy_id name description rules priority enabled s) = s"
proof -
  let ?l = "case rules of Valid l \<Rightarrow> l | _ \<Rightarrow> []"
  from assms have "?l = [] \<or> (\<exists>r. RuleObj r \<in> set ?l
      \<and> (condition_empty (ru_condition r)
           \<or> get_or (ru_action r) ''deny'' \<notin> set valid_actions))"
    by auto
  then have inv: "\<not> fst (validate_policy_rules ?l)" by (rule validate_policy_rules_invalid)
  from assms have ni: "\<And>raw msg. rules \<noteq> Invalid raw msg" by auto
  show ?thesis using inv ni
    by (cases rules) (auto simp: create_policy_def Let_def split: prod.splits)
qed

theorem create_policy_invalid_rules_unchanged_witness:
  "RuleObj explode_rule \<in> set [RuleObj explode_rule]
   \<and> get_or (ru_action explode_rule) ''deny'' \<notin> set valid_actions
   \<and> \<not> cp_success (fst (create_policy test_env ''test-policy'' ''Bad Policy'' ''Invalid action''
          (Valid [RuleObj explode_rule]) 100 True test_store))
   \<and> snd (create_policy test_env ''test-policy'' ''Bad Policy'' ''Invalid action''
          (Valid [RuleObj explode_rule]) 100 True test_store) = test_store"
proof -
  have a: "get_or (ru_action explode_rule) ''deny'' \<notin> set valid_actions"
    by (simp add: explode_rule_def get_or_def valid_actions_def)
  then have h: "Valid [RuleObj explode_rule] = Blank \<or> Valid [RuleObj explode_rule] = Valid [] \<or>
     (\<exists>l r. Valid [RuleObj explode_rule] = Valid l \<and> RuleObj r \<in> set l
        \<and> (condition_empty (ru_condition r)
             \<or> get_or (ru_action r) ''deny'' \<notin> set valid_actions))"
    by auto
  show ?thesis
    using a create_policy_invalid_rules_unchanged
      [OF h, of test_env "''test-policy''" "''Bad Policy''" "''Invalid action''" 100 True
         test_store]
    by simp
qed

subsection \<open>Auto-registration\<close>

lemma evaluate_policies_unknown_low:
  assumes "ag_trust_level a = Some ''low''" and "ag_allowed_tools a = None"
      and "ag_denied_tools a = None" and "agents agent_id = Some a"
  shows "evaluate_policies action_type target agent_id params agents policies =
      (case eval_policy_list action_type target ''low'' policies of
         Inl err \<Rightarrow> Inl err
       | Inr None \<Rightarrow> Inr default_allow
       | Inr (Some d) \<Rightarrow> Inr d)"
  using assms
  by (simp add: evaluate_policies_def get_or_def Let_def split: sum.splits option.splits)

lemma auto_agent_fields:
  "ag_trust_level (auto_agent agent_id ts) = Some ''low''"
  "ag_auto_registered (auto_agent agent_id ts) = Some True"
  "ag_status (auto_agent agent_id ts) = None"
  "ag_allowed_tools (auto_agent agent_id ts) = None"
  "ag_denied_tools (auto_agent agent_id ts) = None"
  by (simp_all add: auto_agent_def empty_agent_def)

lemma validate_action_agents:
  "st_agents (snd (validate_action e action_type target agent_id parameters ctx s)) =
     auto_register agent_id (env_timestamp e) (st_agents s)"
  by (simp add: validate_action_def Let_def split: sum.splits)

text \<open>
  C8, as the claim states it: the record persisted for an unknown agent id has status
  \<^verbatim>\<open>active\<close>. The record the code writes has five keys (\<^verbatim>\<open>agent_id\<close>, \<^verbatim>\<open>name\<close>,
  \<^verbatim>\<open>trust_level\<close>, \<^verbatim>\<open>registered_at\<close>, \<^verbatim>\<open>auto_registered\<close>) and no \<^verbatim>\<open>status\<close>:
  for the unknown agent of the test suite the stored status is not \<^verbatim>\<open>active\<close>.
\<close>

theorem auto_registered_status_counterexample:
  "st_agents test_store ''unknown-agent'' = None
   \<and> st_agents (snd (validate_action test_env ''tool_call'' ''delete_records'' ''unknown-agent''
        Blank [] test_store)) ''unknown-agent'' =
       Some (auto_agent ''unknown-agent'' (env_timestamp test_env))
   \<and> ag_status (auto_agent ''unknown-agent'' (env_timestamp test_env)) \<noteq> Some ''active''"
  by (simp add: validate_action_agents auto_register_def test_store_def test_agents_def
      auto_agent_fields)

text \<open>
  C8, amended. For an agent id absent from the agent store, \<open>validate_action\<close> leaves
  in the store, whether the evaluation returns or raises, the old agents and a new
  record for the id with trust level \<^verbatim>\<open>low\<close>, \<^verbatim>\<open>auto_registered\<close> true and no status
  key (so the agent is not suspended); and what it returns is the evaluation of the
  action at trust level \<^verbatim>\<open>low\<close>, with no agent-level tool lists, against the stored
  policies.
\<close>

theorem unknown_agent_auto_registered:
  assumes "st_agents s agent_id = None"
  shows "st_agents (snd (validate_action e action_type target agent_id parameters ctx s)) =
           (st_agents s)(agent_id \<mapsto> auto_agent agent_id (env_timestamp e))
       \<and> ag_trust_level (auto_agent agent_id (env_timestamp e)) = Some ''low''
       \<and> ag_auto_registered (auto_agent agent_id (env_timestamp e)) = Some True
       \<and> ag_status (auto_agent agent_id (env_timestamp e)) = None
       \<and> fst (validate_action e action_type target agent_id parameters ctx s) =
           (case eval_policy_list action_type target ''low'' (st_policies s) of
              Inl err \<Rightarrow> Inl err
            | Inr None \<Rightarrow> Inr (evaluated_result (env_action_id e) default_allow)
            | Inr (Some d) \<Rightarrow> Inr (evaluated_result (env_action_id e) d))"
proof -
  let ?a = "auto_agent agent_id (env_timestamp e)"
  let ?agents = "(st_agents s)(agent_id \<mapsto> ?a)"
  have reg: "auto_register agent_id (env_timestamp e) (st_agents s) = ?agents"
    using assms by (simp add: auto_register_def)
  have ev: "evaluate_policies action_type target agent_id (parse_params parameters) ?agents
        (st_policies s) =
      (case eval_policy_list action_type target ''low'' (st_policies s) of
         Inl err \<Rightarrow> Inl err
       | Inr None \<Rightarrow> Inr default_allow
       | Inr (Some d) \<Rightarrow> Inr d)"
    by (rule evaluate_policies_unknown_low [where a = ?a]) (simp_all add: auto_agent_fields)
  have res: "fst (validate_action e action_type target agent_id parameters ctx s) =
           (case eval_policy_list action_type target ''low'' (st_policies s) of
              Inl err \<Rightarrow> Inl err
            | Inr None \<Rightarrow> Inr (evaluated_result (env_action_id e) default_allow)
            | Inr (Some d) \<Rightarrow> Inr (evaluated_result (env_action_id e) d))"
    by (simp add: validate_action_def Let_def reg ev get_or_def auto_agent_fields
        split: sum.splits option.splits)
  show ?thesis
    using res by (simp add: validate_action_agents reg auto_agent_fields)
qed

theorem unknown_agent_auto_registered_witness:
  "st_agents test_store ''unknown-agent'' = None
   \<and> st_agents (snd (validate_action test_env ''tool_call'' ''delete_records'' ''unknown-agent''
        Blank [] test_store)) ''unknown-agent'' =
       Some (auto_agent ''unknown-agent'' ''2025-01-01T00:00:00+00:00'')
   \<and> fst (validate_action test_env ''tool_call'' ''delete_records'' ''unknown-agent''
        Blank [] test_store) =
       Inr \<lparr>va_action_id = ''act_000000000001'', va_allowed = False,
            va_require_approval = Some False, va_reason = ''Delete requires admin'',
            va_warnings = []\<rparr>"
proof -
  have h: "st_agents test_store ''unknown-agent'' = None"
    by (simp add: test_store_def test_agents_def)
  have ev: "eval_policy_list ''tool_call'' ''delete_records'' ''low'' (st_policies test_store) =
      Inr (Some \<lparr>de_allowed = False, de_require_approval = None,
              de_reason = ''Delete requires admin'', de_policy_matched = ''test-policy''\<rparr>)"
    by (simp add: re_eval test_store_def test_policy_def delete_rule_def read_rule_def
      empty_condition_def get_or_def eval_rule_def pattern_ok_def policy_id_or_unknown_def
      at_least_clause_def below_clause_def trust_score_def trust_levels_def)
  show ?thesis
    using h unknown_agent_auto_registered
      [OF h, of test_env "''tool_call''" "''delete_records''" Blank "[]"]
    by (simp add: ev evaluated_result_def get_or_def test_env_def)
qed

subsection \<open>Auto-suspension\<close>

text \<open>
  C9, as the claim states it: a critical incident for an agent id present in the agent
  store suspends that agent. The code suspends only under
  \<^verbatim>\<open>if severity == "critical" and agent_id\<close>, and the empty agent id can be a key of
  the store (a \<^verbatim>\<open>validate_action\<close> call with it auto-registers it): a critical incident
  for it leaves its record as it was and answers \<open>agent_suspended = False\<close>.
\<close>

theorem empty_agent_id_not_suspended_counterexample:
  "st_agents anon_store [] = Some (auto_agent [] ''2024-12-31T00:00:00+00:00'')
   \<and> \<not> ri_agent_suspended (fst (report_incident test_env ''unauthorized_access'' ''critical''
          ''Critical security breach'' [] Blank [] anon_store))
   \<and> st_agents (snd (report_incident test_env ''unauthorized_access'' ''critical''
          ''Critical security breach'' [] Blank [] anon_store)) [] =
       Some (auto_agent [] ''2024-12-31T00:00:00+00:00'')
   \<and> ag_status (auto_agent [] ''2024-12-31T00:00:00+00:00'') \<noteq> Some ''suspended''"
  by (simp add: anon_store_def report_incident_def Let_def valid_severities_def
      auto_agent_fields)

text \<open>
  C9, amended. \<open>report_incident\<close> with severity \<^verbatim>\<open>critical\<close> and a non-empty agent id
  present in the agent store sets that agent's status to \<^verbatim>\<open>suspended\<close> and records the
  timestamp and the reason, changes no other field of the record and no other agent's
  record, and answers \<open>agent_suspended = True\<close>. With another severity, an empty agent
  id or an agent id not in the store, the agents are unchanged and it answers
  \<open>agent_suspended = False\<close>.
\<close>

theorem critical_incident_suspends_agent:
  "(severity = ''critical'' \<and> agent_id \<noteq> [] \<and> st_agents s agent_id = Some a \<longrightarrow>
      st_agents (snd (report_incident e incident_type severity description agent_id evidence
          recommended_action s)) =
        (st_agents s)(agent_id \<mapsto> a\<lparr>ag_status := Some ''suspended'',
           ag_suspended_at := Some (env_timestamp e),
           ag_suspension_reason :=
             Some (''Auto-suspended due to critical incident: '' @ env_incident_id e)\<rparr>)
      \<and> ri_agent_suspended (fst (report_incident e incident_type severity description agent_id
           evidence recommended_action s)))
   \<and> (severity \<noteq> ''critical'' \<or> agent_id = [] \<or> st_agents s agent_id = None \<longrightarrow>
      st_agents (snd (report_incident e incident_type severity description agent_id evidence
          recommended_action s)) = st_agents s
      \<and> \<not> ri_agent_suspended (fst (report_incident e incident_type severity description agent_id
           evidence recommended_action s)))"
  by (auto simp: report_incident_def Let_def valid_severities_def suspend_agent_def
      split: option.splits)

theorem critical_incident_suspends_agent_witness:
  "st_agents test_store ''test-medium'' =
     Some (test_agent ''test-medium'' ''Medium Trust'' ''medium'' ''active'')
   \<and> st_agents (snd (report_incident test_env ''unauthorized_access'' ''critical''
          ''Critical security breach'' ''test-medium'' Blank [] test_store)) =
       (st_agents test_store)(''test-medium'' \<mapsto>
          (test_agent ''test-medium'' ''Medium Trust'' ''medium'' ''active'')
            \<lparr>ag_status := Some ''suspended'',
             ag_suspended_at := Some ''2025-01-01T00:00:00+00:00'',
             ag_suspension_reason :=
               Some ''Auto-suspended due to critical incident: inc_000000000003''\<rparr>)
   \<and> ri_agent_suspended (fst (report_incident test_env ''unauthorized_access'' ''critical''
          ''Critical security breach'' ''test-medium'' Blank [] test_store))"
proof -
  have h: "st_agents test_store ''test-medium'' =
     Some (test_agent ''test-medium'' ''Medium Trust'' ''medium'' ''active'')"
    by (simp add: test_store_def test_agents_def)
  show ?thesis
    using h critical_incident_suspends_agent
      [of "''critical''" "''test-medium''" test_store
          "test_agent ''test-medium'' ''Medium Trust'' ''medium'' ''active''" test_env
          "''unauthorized_access''" "''Critical security breach''" Blank "[]"]
    by (simp add: test_env_def)
qed

subsection \<open>Approval decisions and the incident log\<close>

lemma last_append_to_json_list: "last (append_to_json_list xs x) = x"
  by (simp add: append_to_json_list_def max_items_def Let_def)

text \<open>Every decision that does not allow, a denial or a request for approval, appends
  the same incident.\<close>

lemma denied_decision_logged:
  assumes "ag_status (get_or (auto_register agent_id (env_timestamp e) (st_agents s) agent_id)
             empty_agent) \<noteq> Some ''suspended''"
      and "evaluate_policies action_type target agent_id (parse_params parameters)
             (auto_register agent_id (env_timestamp e) (st_agents s)) (st_policies s) = Inr d"
      and "\<not> de_allowed d"
  shows "st_incidents (snd (validate_action e action_type target agent_id parameters ctx s)) =
           append_to_json_list (st_incidents s)
             (violation_incident e action_type target agent_id
                (evaluated_result (env_action_id e) d))"
  using assms
  by (simp add: validate_action_def Let_def evaluated_result_def)

text \<open>
  C10. When the evaluation of a non-suspended agent's action returns the decision of a
  \<^verbatim>\<open>require_approval\<close> rule (the one decision with \<open>require_approval = True\<close>, see
  \<open>eval_rule_require_approval\<close>), \<open>validate_action\<close> returns \<open>require_approval = True\<close>
  together with \<open>allowed = False\<close>, and it appends to the incident log an incident of
  type \<^verbatim>\<open>policy_violation\<close> and severity \<^verbatim>\<open>medium\<close> that carries the call's action id,
  as it does for a denial.
\<close>

theorem approval_decision_denied_and_logged:
  assumes "ag_status (get_or (auto_register agent_id (env_timestamp e) (st_agents s) agent_id)
             empty_agent) \<noteq> Some ''suspended''"
      and "evaluate_policies action_type target agent_id (parse_params parameters)
             (auto_register agent_id (env_timestamp e) (st_agents s)) (st_policies s) = Inr d"
      and "de_require_approval d = Some True"
  shows "fst (validate_action e action_type target agent_id parameters ctx s) =
           Inr \<lparr>va_action_id = env_action_id e, va_allowed = False,
                va_require_approval = Some True, va_reason = de_reason d, va_warnings = []\<rparr>
       \<and> st_incidents (snd (validate_action e action_type target agent_id parameters ctx s)) =
           append_to_json_list (st_incidents s)
             \<lparr>inc_incident_id = env_incident_id e, inc_timestamp = env_timestamp e,
              inc_type = ''policy_violation'', inc_severity = ''medium'',
              inc_agent_id = Some agent_id, inc_action_id = Some (env_action_id e),
              inc_details = Some (''Agent '' @ q agent_id @ '' attempted '' @ q action_type
                @ '' on '' @ q target @ '' - DENIED: '' @ de_reason d),
              inc_description = None, inc_evidence = None, inc_recommended_action = None,
              inc_status = None, inc_resolution = None\<rparr>
       \<and> inc_action_id (last (st_incidents
            (snd (validate_action e action_type target agent_id parameters ctx s)))) =
           Some (env_action_id e)"
proof -
  have na: "\<not> de_allowed d" using assms(2,3) by (rule evaluate_policies_require_approval)
  have a: "fst (validate_action e action_type target agent_id parameters ctx s) =
           Inr \<lparr>va_action_id = env_action_id e, va_allowed = False,
                va_require_approval = Some True, va_reason = de_reason d, va_warnings = []\<rparr>"
    using assms na by (simp add: validate_action_def Let_def evaluated_result_def get_or_def)
  have b: "st_incidents (snd (validate_action e action_type target agent_id parameters ctx s)) =
           append_to_json_list (st_incidents s)
             \<lparr>inc_incident_id = env_incident_id e, inc_timestamp = env_timestamp e,
              inc_type = ''policy_violation'', inc_severity = ''medium'',
              inc_agent_id = Some agent_id, inc_action_id = Some (env_action_id e),
              inc_details = Some (''Agent '' @ q agent_id @ '' attempted '' @ q action_type
                @ '' on '' @ q target @ '' - DENIED: '' @ de_reason d),
              inc_description = None, inc_evidence = None, inc_recommended_action = None,
              inc_status = None, inc_resolution = None\<rparr>"
    using assms na
    by (simp add: validate_action_def Let_def evaluated_result_def get_or_def
        violation_incident_def)
  show ?thesis using a b by (simp add: last_append_to_json_list)
qed

theorem approval_decision_denied_and_logged_witness:
  "ag_status (get_or (auto_register ''test-low'' (env_timestamp test_env)
       (st_agents approval_store) ''test-low'') empty_agent) \<noteq> Some ''suspended''
   \<and> evaluate_policies ''tool_call'' ''deploy_prod'' ''test-low'' (parse_params Blank)
       (auto_register ''test-low'' (env_timestamp test_env) (st_agents approval_store))
       (st_policies approval_store) =
       Inr \<lparr>de_allowed = False, de_require_approval = Some True,
            de_reason = ''Deploy needs sign-off'', de_policy_matched = ''approve-deploy''\<rparr>
   \<and> fst (validate_action test_env ''tool_call'' ''deploy_prod'' ''test-low'' Blank []
         approval_store) =
       Inr \<lparr>va_action_id = ''act_000000000001'', va_allowed = False,
            va_require_approval = Some True, va_reason = ''Deploy needs sign-off'',
            va_warnings = []\<rparr>
   \<and> st_incidents (snd (validate_action test_env ''tool_call'' ''deploy_prod'' ''test-low''
         Blank [] approval_store)) =
       [\<lparr>inc_incident_id = ''inc_000000000003'', inc_timestamp = ''2025-01-01T00:00:00+00:00'',
         inc_type = ''policy_violation'', inc_severity = ''medium'',
         inc_agent_id = Some ''test-low'', inc_action_id = Some ''act_000000000001'',
         inc_details = Some (''Agent '' @ q ''test-low'' @ '' attempted '' @ q ''tool_call''
           @ '' on '' @ q ''deploy_prod'' @ '' - DENIED: Deploy needs sign-off''),
         inc_description = None, inc_evidence = None, inc_recommended_action = None,
         inc_status = None, inc_resolution = None\<rparr>]"
proof -
  let ?d = "\<lparr>de_allowed = False, de_require_approval = Some True,
            de_reason = ''Deploy needs sign-off'', de_policy_matched = ''approve-deploy''\<rparr>"
  have reg: "auto_register ''test-low'' (env_timestamp test_env) (st_agents approval_store) =
      test_agents"
    by (simp add: auto_register_def approval_store_def test_store_def test_agents_def)
  have h1: "ag_status (get_or (auto_register ''test-low'' (env_timestamp test_env)
       (st_agents approval_store) ''test-low'') empty_agent) \<noteq> Some ''suspended''"
    by (simp add: reg) (simp add: test_agents_def test_agent_def get_or_def)
  have h2: "evaluate_policies ''tool_call'' ''deploy_prod'' ''test-low'' (parse_params Blank)
       (auto_register ''test-low'' (env_timestamp test_env) (st_agents approval_store))
       (st_policies approval_store) = Inr ?d"
    by (simp add: reg)
       (simp add: re_eval test_agents_def test_agent_def test_policy_def approval_rule_def
         approval_store_def test_store_def empty_condition_def
         evaluate_policies_def get_or_def Let_def empty_agent_def eval_rule_def pattern_ok_def
         policy_id_or_unknown_def at_least_clause_def below_clause_def trust_score_def
         trust_levels_def)
  have h3: "de_require_approval ?d = Some True" by simp
  have inc0: "st_incidents approval_store = []"
    by (simp add: approval_store_def test_store_def)
  show ?thesis
    using h1 h2 approval_decision_denied_and_logged
      [OF h1 h2 h3, of "[]"]
    by (simp add: test_env_def inc0 append_to_json_list_def max_items_def Let_def)
qed

end
